theory Spec2Isabelle
  imports Complex_Main "HOL-Library.Word"
begin

section \<open>Tables, failures and the table engine's primitives\<close>

text \<open>
  The checks of \<^verbatim>\<open>engarde/checks.py\<close> take a pandas DataFrame, assert
  something about it and return it. A table is modelled as a row index (the row
  identifiers, not necessarily distinct) and an ordered list of named columns, each
  with a type tag and its cells. The cell type is a parameter: each check fixes what
  it needs of it (comparisons, a subtraction, real numbers, an optional value for the
  missing-value check). Two cell types of the table engine are modelled below, the
  64-bit floats with their NaN and infinities and the 64-bit integers with their
  wrap-around.

  A check returns \<open>Inr df\<close> when it returns its table, and \<open>Inl e\<close> when it raises
  \<open>e\<close>: a \<open>KeyError\<close> of a column lookup, or the \<open>AssertionError\<close> of the check with
  the arguments it carries.
\<close>

datatype ('i, 'a) payload =
    NoArgs
  | Locations "('i \<times> string) list"
  | Message string
  | NotInSet "('i \<times> 'a) list"
  | OutsideRange "('i \<times> bool) list"
  | Duplicates "'i list"

datatype ('i, 'a) error =
    KeyError string
  | AssertionError "('i, 'a) payload"

record 'a column =
  col_name :: string
  col_dtype :: string
  col_values :: "'a list"

record ('i, 'a) dataframe =
  df_index :: "'i list"
  df_columns :: "'a column list"

text \<open>\<open>df.columns\<close>, \<open>df.shape\<close> and \<open>df.dtypes\<close>.\<close>

definition columns_of :: "('i, 'a) dataframe \<Rightarrow> string list" where
  "columns_of df = map col_name (df_columns df)"

definition shape_of :: "('i, 'a) dataframe \<Rightarrow> nat \<times> nat" where
  "shape_of df = (length (df_index df), length (df_columns df))"

definition dtypes_of :: "('i, 'a) dataframe \<Rightarrow> (string \<times> string) list" where
  "dtypes_of df = map (\<lambda>c. (col_name c, col_dtype c)) (df_columns df)"

text \<open>
  \<open>df[k]\<close>: the cells of the column named \<open>k\<close>; \<open>None\<close> when there is no such
  column, where pandas raises \<open>KeyError\<close> (every caller below turns it into one).
  Column names are meant to be distinct; where a name is repeated, the first column of
  that name is the one looked up.
\<close>

definition getitem :: "('i, 'a) dataframe \<Rightarrow> string \<Rightarrow> 'a list option" where
  "getitem df k = map_option col_values (find (\<lambda>c. col_name c = k) (df_columns df))"

text \<open>\<open>df[columns]\<close> for a list of names: the sub-table of these columns, in the order asked for.\<close>

fun select_columns :: "'a column list \<Rightarrow> string list \<Rightarrow> string + 'a column list" where
  "select_columns cs [] = Inr []"
| "select_columns cs (k # ks) =
     (case find (\<lambda>c. col_name c = k) cs of
        None \<Rightarrow> Inl k
      | Some c \<Rightarrow> (case select_columns cs ks of Inl e \<Rightarrow> Inl e | Inr r \<Rightarrow> Inr (c # r)))"

definition getitems :: "('i, 'a) dataframe \<Rightarrow> string list \<Rightarrow> string + ('i, 'a) dataframe" where
  "getitems df ks =
     (case select_columns (df_columns df) ks of
        Inl k \<Rightarrow> Inl k
      | Inr cs \<Rightarrow> Inr \<lparr>df_index = df_index df, df_columns = cs\<rparr>)"

text \<open>
  A table is well formed when every column has one cell per row of the index (the
  invariant of the data model). Only the theorems that read a cell by its row need it.
\<close>

definition well_formed :: "('i, 'a) dataframe \<Rightarrow> bool" where
  "well_formed df \<longleftrightarrow>
     list_all (\<lambda>c. length (col_values c) = length (df_index df)) (df_columns df)"

subsection \<open>Cells: 64-bit floats and 64-bit integers\<close>

text \<open>
  A float cell is NaN, an infinity or a finite number, given by its value. The
  comparisons are those of IEEE 754: every comparison with NaN is false. A difference
  with NaN is NaN, and so is the difference of an infinity with itself. The checks that
  use this type only compare cells and look at the sign of a difference of two cells;
  rounding changes neither (the rounded difference of two distinct floats is never
  zero and has the sign of the exact one, also when it overflows to an infinity), so
  the difference of two finite cells is given by its exact value.
\<close>

datatype float64 = NaN | NegInf | Finite real | PosInf

fun float64_le :: "float64 \<Rightarrow> float64 \<Rightarrow> bool" where
  "float64_le NaN y = False"
| "float64_le x NaN = False"
| "float64_le NegInf y = True"
| "float64_le x PosInf = True"
| "float64_le (Finite a) (Finite b) = (a \<le> b)"
| "float64_le x y = False"

fun float64_sub :: "float64 \<Rightarrow> float64 \<Rightarrow> float64" where
  "float64_sub NaN y = NaN"
| "float64_sub x NaN = NaN"
| "float64_sub PosInf PosInf = NaN"
| "float64_sub NegInf NegInf = NaN"
| "float64_sub PosInf y = PosInf"
| "float64_sub NegInf y = NegInf"
| "float64_sub x PosInf = NegInf"
| "float64_sub x NegInf = PosInf"
| "float64_sub (Finite a) (Finite b) = Finite (a - b)"

instantiation float64 :: "{ord, minus, zero}"
begin

definition less_eq_float64 :: "float64 \<Rightarrow> float64 \<Rightarrow> bool" where
  "less_eq_float64 x y \<longleftrightarrow> float64_le x y"

definition less_float64 :: "float64 \<Rightarrow> float64 \<Rightarrow> bool" where
  "less_float64 x y \<longleftrightarrow> float64_le x y \<and> \<not> float64_le y x"

definition minus_float64 :: "float64 \<Rightarrow> float64 \<Rightarrow> float64" where
  "minus_float64 x y = float64_sub x y"

definition zero_float64 :: float64 where
  "zero_float64 = Finite 0"

instance ..

end

text \<open>
  An integer cell is a word of 64 bits, read as a signed number; a difference wraps
  around, as numpy's does.
\<close>

datatype int64 = Int64 "64 word"

fun bits :: "int64 \<Rightarrow> 64 word" where
  "bits (Int64 w) = w"

definition int64_of :: "int \<Rightarrow> int64" where
  "int64_of k = Int64 (word_of_int k)"

instantiation int64 :: "{ord, minus, zero}"
begin

definition less_eq_int64 :: "int64 \<Rightarrow> int64 \<Rightarrow> bool" where
  "less_eq_int64 x y \<longleftrightarrow> sint (bits x) \<le> sint (bits y)"

definition less_int64 :: "int64 \<Rightarrow> int64 \<Rightarrow> bool" where
  "less_int64 x y \<longleftrightarrow> sint (bits x) < sint (bits y)"

definition minus_int64 :: "int64 \<Rightarrow> int64 \<Rightarrow> int64" where
  "minus_int64 x y = Int64 (bits x - bits y)"

definition zero_int64 :: int64 where
  "zero_int64 = Int64 0"

instance ..

end

text \<open>The signed order of the integer cells is linear.\<close>

instantiation int64 :: linorder
begin

instance
proof
  fix x y z :: int64
  show "x < y \<longleftrightarrow> x \<le> y \<and> \<not> y \<le> x"
    by (auto simp: less_int64_def less_eq_int64_def)
  show "x \<le> x"
    by (simp add: less_eq_int64_def)
  show "x \<le> y \<Longrightarrow> y \<le> z \<Longrightarrow> x \<le> z"
    by (simp add: less_eq_int64_def)
  show "x \<le> y \<Longrightarrow> y \<le> x \<Longrightarrow> x = y"
  proof -
    assume "x \<le> y" and "y \<le> x"
    then have "sint (bits x) = sint (bits y)"
      by (simp add: less_eq_int64_def)
    then have "bits x = bits y"
      by (rule signed_word_eqI [where ?'a = int])
    then show ?thesis
      by (cases x; cases y) simp
  qed
  show "x \<le> y \<or> y \<le> x"
    by (auto simp: less_eq_int64_def)
qed

end

text \<open>
  \<open>isna\<close>: the test for a missing value. A value is NaN exactly when it does not
  compare equal to itself; in terms of the order, when \<open>x \<le> x\<close> is false.
\<close>

definition isna :: "('a::ord) \<Rightarrow> bool" where
  "isna x \<longleftrightarrow> \<not> x \<le> x"

subsection \<open>Boolean masks\<close>

text \<open>An elementwise test of a table gives a table of booleans over the same index and columns.\<close>

definition map_cells :: "('a \<Rightarrow> 'b) \<Rightarrow> string \<Rightarrow> 'a column \<Rightarrow> 'b column" where
  "map_cells f ty c = \<lparr>col_name = col_name c, col_dtype = ty, col_values = map f (col_values c)\<rparr>"

definition invert :: "('i, bool) dataframe \<Rightarrow> ('i, bool) dataframe" where
  "invert m = \<lparr>df_index = df_index m, df_columns = map (map_cells Not ''bool'') (df_columns m)\<rparr>"

definition any_any :: "('i, bool) dataframe \<Rightarrow> bool" where
  "any_any m = list_ex (\<lambda>c. list_ex id (col_values c)) (df_columns m)"

definition np_all :: "('i, bool) dataframe \<Rightarrow> bool" where
  "np_all m = list_all (\<lambda>c. list_all id (col_values c)) (df_columns m)"

text \<open>
  Modelled from the spec: \<open>bad_locations\<close> of \<^verbatim>\<open>engarde/utils.py\<close>, which is not among
  the sources. The spec's Violation Locator gives, for a mask over several columns, the
  pairs of row identifier and column name where the mask is true, by row and, within a
  row, by column.
\<close>

definition bad_locations :: "('i, bool) dataframe \<Rightarrow> ('i \<times> string) list" where
  "bad_locations m =
     concat (map (\<lambda>(r, i). map (\<lambda>c. (i, col_name c))
                    (filter (\<lambda>c. r < length (col_values c) \<and> col_values c ! r) (df_columns m)))
                 (enumerate 0 (df_index m)))"

section \<open>The checks\<close>

subsection \<open>\<open>none_missing\<close>\<close>

text \<open>A missing cell is \<open>None\<close>; \<open>columns=None\<close> means every column.\<close>

definition isnull :: "('i, 'a option) dataframe \<Rightarrow> ('i, bool) dataframe" where
  "isnull df = \<lparr>df_index = df_index df,
                df_columns = map (map_cells (\<lambda>v. v = None) ''bool'') (df_columns df)\<rparr>"

definition none_missing ::
  "('i, 'a option) dataframe \<Rightarrow> string list option \<Rightarrow>
   ('i, 'a option) error + ('i, 'a option) dataframe" where
  "none_missing df columns =
     (let columns = (case columns of None \<Rightarrow> columns_of df | Some cs \<Rightarrow> cs) in
      case getitems df columns of
        Inl k \<Rightarrow> Inl (KeyError k)
      | Inr sub \<Rightarrow>
          if any_any (isnull sub) then
            (let missing = isnull sub; msg = bad_locations missing
             in Inl (AssertionError (Locations msg)))
          else Inr df)"

subsection \<open>\<open>is_monotonic\<close>\<close>

text \<open>
  The properties \<open>is_monotonic_increasing\<close> (with its alias \<open>is_monotonic\<close>) and
  \<open>is_monotonic_decreasing\<close> of a pandas Index compare each value with its predecessor.
  A comparison with NaN is false, so neither property holds of a column with a NaN next
  to another value; and pandas takes a single NaN value for neither increasing nor
  decreasing, where any other single value, and no value at all, is both.
\<close>

fun is_monotonic_increasing :: "('a::ord) list \<Rightarrow> bool" where
  "is_monotonic_increasing [] = True"
| "is_monotonic_increasing [x] = (\<not> isna x)"
| "is_monotonic_increasing (x # y # xs) = (x \<le> y \<and> is_monotonic_increasing (y # xs))"

fun is_monotonic_decreasing :: "('a::ord) list \<Rightarrow> bool" where
  "is_monotonic_decreasing [] = True"
| "is_monotonic_decreasing [x] = (\<not> isna x)"
| "is_monotonic_decreasing (x # y # xs) = (x \<ge> y \<and> is_monotonic_decreasing (y # xs))"

text \<open>
  \<open>s.to_series().diff()\<close> is the series of the differences of each value and its
  predecessor, computed in the arithmetic of the cells; its first row, which has no
  predecessor, is NaN. \<open>dropna()\<close> removes that row and every other row that is NaN.
\<close>

fun diff :: "('a::minus) list \<Rightarrow> 'a list" where
  "diff (x # y # xs) = (y - x) # diff (y # xs)"
| "diff _ = []"

definition diff_dropna :: "('a::{ord, minus}) list \<Rightarrow> 'a list" where
  "diff_dropna s = filter (\<lambda>d. \<not> isna d) (diff s)"

text \<open>
  The body of the loop: the value of \<open>good\<close> for the column \<open>s\<close>. The direction
  \<open>increasing\<close> is \<open>None\<close>, \<open>True\<close> or \<open>False\<close>, as in Python.
\<close>

definition column_good ::
  "('a::{ord, minus, zero}) list \<Rightarrow> bool option \<Rightarrow> bool \<Rightarrow> bool" where
  "column_good s increasing strict =
     (let good =
            (if increasing = Some True then is_monotonic_increasing s
             else if increasing = None then is_monotonic_increasing s \<or> is_monotonic_decreasing s
             else is_monotonic_decreasing s)
      in if strict then
           (if increasing = Some True then good \<and> list_all (\<lambda>d. d > 0) (diff_dropna s)
            else if increasing = None then
              good \<and> (list_all (\<lambda>d. d > 0) (diff_dropna s) \<or> list_all (\<lambda>d. d < 0) (diff_dropna s))
            else good \<and> list_all (\<lambda>d. d < 0) (diff_dropna s))
         else good)"

fun is_monotonic_items ::
  "('i, 'a::{ord, minus, zero}) dataframe \<Rightarrow> (string \<times> bool option \<times> bool) list \<Rightarrow>
   ('i, 'a) error + ('i, 'a) dataframe" where
  "is_monotonic_items df [] = Inr df"
| "is_monotonic_items df ((col, increasing, strict) # items) =
     (case getitem df col of
        None \<Rightarrow> Inl (KeyError col)
      | Some s \<Rightarrow>
          if \<not> column_good s increasing strict then Inl (AssertionError NoArgs)
          else is_monotonic_items df items)"

definition is_monotonic ::
  "('i, 'a::{ord, minus, zero}) dataframe \<Rightarrow> (string \<times> bool option \<times> bool) list option \<Rightarrow>
   bool option \<Rightarrow> bool \<Rightarrow> ('i, 'a) error + ('i, 'a) dataframe" where
  "is_monotonic df items increasing strict =
     is_monotonic_items df
       (case items of
          None \<Rightarrow> map (\<lambda>k. (k, increasing, strict)) (columns_of df)
        | Some its \<Rightarrow> its)"

subsection \<open>\<open>is_shape\<close>\<close>

text \<open>The message is the Python format of the two pairs, as in \<open>(5, 3)\<close>.\<close>

function string_of_nat :: "nat \<Rightarrow> string" where
  "string_of_nat n =
     (if n < 10 then [char_of (48 + n)]
      else string_of_nat (n div 10) @ [char_of (48 + n mod 10)])"
  by pat_completeness auto
termination
  by (relation "measure id") auto

definition string_of_shape :: "nat \<times> nat \<Rightarrow> string" where
  "string_of_shape sh = ''('' @ string_of_nat (fst sh) @ '', '' @ string_of_nat (snd sh) @ '')''"

definition is_shape ::
  "('i, 'a) dataframe \<Rightarrow> nat \<times> nat \<Rightarrow> ('i, 'a) error + ('i, 'a) dataframe" where
  "is_shape df shape =
     (if shape_of df = shape then Inr df
      else Inl (AssertionError (Message
             (''Expected shape: '' @ string_of_shape shape @ [CHR 0x0A, CHR 0x09, CHR 0x09]
              @ ''Actual shape:   '' @ string_of_shape (shape_of df)))))"

subsection \<open>\<open>unique_index\<close>\<close>

text \<open>
  \<open>Index.is_unique\<close> holds when no row identifier occurs twice;
  \<open>Index.get_duplicates()\<close> is the sorted list of the identifiers that occur more than
  once, each listed once.
\<close>

definition is_unique :: "'i list \<Rightarrow> bool" where
  "is_unique idx = distinct idx"

definition get_duplicates :: "('i::linorder) list \<Rightarrow> 'i list" where
  "get_duplicates idx = sort (remdups (filter (\<lambda>k. 1 < count_list idx k) idx))"

definition unique_index ::
  "('i::linorder, 'a) dataframe \<Rightarrow> ('i, 'a) error + ('i, 'a) dataframe" where
  "unique_index df =
     (if is_unique (df_index df) then Inr df
      else Inl (AssertionError (Duplicates (get_duplicates (df_index df)))))"

subsection \<open>\<open>within_set\<close>\<close>

text \<open>
  \<open>items\<close> is a dict; the list holds its entries in the order \<open>items.items()\<close> gives them
  (the default \<open>items=None\<close> is not a mapping and cannot be iterated, so the argument is
  required here).
  \<open>df[k].isin(v)\<close> is the mask of the cells that are members of \<open>v\<close>, and
  \<open>df.loc[~df[k].isin(v), k]\<close> the cells that are not, each with its row identifier.
\<close>

definition isin :: "'a list \<Rightarrow> 'a list \<Rightarrow> bool list" where
  "isin s v = map (\<lambda>x. x \<in> set v) s"

fun within_set ::
  "('i, 'a) dataframe \<Rightarrow> (string \<times> 'a list) list \<Rightarrow> ('i, 'a) error + ('i, 'a) dataframe" where
  "within_set df [] = Inr df"
| "within_set df ((k, v) # items) =
     (case getitem df k of
        None \<Rightarrow> Inl (KeyError k)
      | Some s \<Rightarrow>
          if \<not> list_all id (isin s v) then
            (let bad = map fst (filter (\<lambda>(row, m). \<not> m) (zip (zip (df_index df) s) (isin s v)))
             in Inl (AssertionError (NotInSet bad)))
          else within_set df items)"

subsection \<open>\<open>within_range\<close>\<close>

text \<open>
  Each entry of \<open>items\<close> gives a column its pair of bounds. The two comparisons are
  those of the source, \<open>lower > df[k]\<close> and \<open>upper < df[k]\<close>, in the order of the cell
  type; the mask \<open>bad\<close> is a boolean series over the row index.
\<close>

fun within_range ::
  "('i, 'a::ord) dataframe \<Rightarrow> (string \<times> 'a \<times> 'a) list \<Rightarrow>
   ('i, 'a) error + ('i, 'a) dataframe" where
  "within_range df [] = Inr df"
| "within_range df ((k, lower, upper) # items) =
     (case getitem df k of
        None \<Rightarrow> Inl (KeyError k)
      | Some s \<Rightarrow>
          if list_ex (\<lambda>x. lower > x) s \<or> list_ex (\<lambda>x. upper < x) s then
            (let bad = zip (df_index df) (map (\<lambda>x. lower > x \<or> upper < x) s)
             in Inl (AssertionError (OutsideRange bad)))
          else within_range df items)"

subsection \<open>\<open>within_n_std\<close>\<close>

text \<open>
  The cells of this check are real numbers, and its arithmetic is that of the 64-bit
  floats: every operation gives the float nearest to its exact result, and of two
  nearest floats the one whose last bit is even. \<open>rne\<close> rounds a real number to the
  nearest integer in this way, and \<open>fl\<close> a real number to the nearest float, whose
  significand has 53 bits. The range of the exponent is not bounded here: no result
  overflows to an infinity or is flushed to zero.
\<close>

definition rne :: "real \<Rightarrow> int" where
  "rne y =
     (let f = \<lfloor>y\<rfloor> in
      if y - of_int f < 1 / 2 then f
      else if 1 / 2 < y - of_int f then f + 1
      else if even f then f else f + 1)"

definition fl :: "real \<Rightarrow> real" where
  "fl x =
     (if x = 0 then 0
      else (let u = 2 powi (\<lfloor>log 2 \<bar>x\<bar>\<rfloor> - 52) in u * of_int (rne (x / u))))"

text \<open>
  The sum of a column adds its values one after the other, each partial sum rounded.
  (The table engine adds a short column in this order and may group the terms of a
  longer one; the longer columns of the examples below hold small integers, whose sums
  are exact in every grouping.)
\<close>

definition fsum :: "real list \<Rightarrow> real" where
  "fsum xs = foldl (\<lambda>a x. fl (a + x)) 0 xs"

text \<open>
  \<open>df.mean()\<close> and \<open>df.std()\<close> reduce each column. The mean is the sum divided by the
  number of values. The standard deviation is that of a sample, computed in two passes:
  the mean, then the sum of the squares of the differences from it, divided by one less
  than the number of values, and the square root of that. The mean of no value and the
  deviation of fewer than two values are NaN, here \<open>None\<close>.
\<close>

definition mean :: "real list \<Rightarrow> real option" where
  "mean xs = (if xs = [] then None else Some (fl (fsum xs / real (length xs))))"

definition std :: "real list \<Rightarrow> real option" where
  "std xs =
     (case mean xs of
        None \<Rightarrow> None
      | Some m \<Rightarrow>
          if length xs \<le> 1 then None
          else Some (fl (sqrt (fl (fsum (map (\<lambda>x. fl ((fl (m - x))\<^sup>2)) xs)
                                   / real (length xs - 1))))))"

text \<open>
  \<open>np.abs(df - means) < n * stds\<close>: the difference and the product are rounded as every
  other operation, the absolute value is exact. A comparison with NaN is false, so a
  cell is an inlier only if both numbers exist.
\<close>

definition is_inlier :: "real \<Rightarrow> real option \<Rightarrow> real option \<Rightarrow> real \<Rightarrow> bool" where
  "is_inlier n m s x =
     (case (m, s) of
        (Some m', Some s') \<Rightarrow> \<bar>fl (x - m')\<bar> < fl (n * s')
      | _ \<Rightarrow> False)"

definition inliers :: "('i, real) dataframe \<Rightarrow> real \<Rightarrow> ('i, bool) dataframe" where
  "inliers df n =
     \<lparr>df_index = df_index df,
      df_columns = map (\<lambda>c. map_cells (is_inlier n (mean (col_values c)) (std (col_values c)))
                              ''bool'' c) (df_columns df)\<rparr>"

definition within_n_std ::
  "('i, real) dataframe \<Rightarrow> real \<Rightarrow> ('i, real) error + ('i, real) dataframe" where
  "within_n_std df n =
     (if \<not> np_all (inliers df n) then
        (let msg = bad_locations (invert (inliers df n))
         in Inl (AssertionError (Locations msg)))
      else Inr df)"

subsection \<open>\<open>has_dtypes\<close>\<close>

text \<open>
  \<open>df.dtypes\<close> gives each column its dtype, here by its name as in \<open>int64\<close>. An entry of
  \<open>items\<close> gives a column the tag of the type expected. \<open>dtypes[k] == v\<close> is numpy's
  comparison of a dtype with a tag, which accepts every spelling numpy knows of a type
  (\<open>int64\<close>, \<open>i8\<close>, ...); it is the parameter \<open>dtype_eq\<close>.
\<close>

fun has_dtypes_items ::
  "(string \<Rightarrow> string \<Rightarrow> bool) \<Rightarrow> ('i, 'a) dataframe \<Rightarrow> (string \<times> string) list \<Rightarrow>
   (string \<times> string) list \<Rightarrow> ('i, 'a) error + ('i, 'a) dataframe" where
  "has_dtypes_items dtype_eq df dtypes [] = Inr df"
| "has_dtypes_items dtype_eq df dtypes ((k, v) # items) =
     (case map_of dtypes k of
        None \<Rightarrow> Inl (KeyError k)
      | Some d \<Rightarrow>
          if \<not> dtype_eq d v then
            Inl (AssertionError (Message (k @ '' has the wrong dtype ('' @ v @ '')'')))
          else has_dtypes_items dtype_eq df dtypes items)"

definition has_dtypes ::
  "(string \<Rightarrow> string \<Rightarrow> bool) \<Rightarrow> ('i, 'a) dataframe \<Rightarrow> (string \<times> string) list \<Rightarrow>
   ('i, 'a) error + ('i, 'a) dataframe" where
  "has_dtypes dtype_eq df items = has_dtypes_items dtype_eq df (dtypes_of df) items"

section \<open>The checks on references to tables\<close>

text \<open>
  In Python a table is an object, and a check receives and returns a reference to it.
  A store gives every reference its table; a check takes the store and a reference,
  and returns the store it leaves and the reference it returns. The bodies are those of
  the checks above, reading the table of the reference wherever the source reads
  \<open>df\<close>. None of the checks assigns to \<open>df\<close> or to a part of it, and none calls a
  method that changes it: the temporaries they compute (sub-tables, masks, differences)
  are values of their own.
\<close>

type_synonym ('r, 'i, 'a) store = "'r \<Rightarrow> ('i, 'a) dataframe"

type_synonym ('r, 'i, 'a) returned = "('i, 'a) error + (('r, 'i, 'a) store \<times> 'r)"

definition none_missing_at ::
  "('r, 'i, 'a option) store \<Rightarrow> 'r \<Rightarrow> string list option \<Rightarrow> ('r, 'i, 'a option) returned" where
  "none_missing_at st df columns =
     (let columns = (case columns of None \<Rightarrow> columns_of (st df) | Some cs \<Rightarrow> cs) in
      case getitems (st df) columns of
        Inl k \<Rightarrow> Inl (KeyError k)
      | Inr sub \<Rightarrow>
          if any_any (isnull sub) then
            (let missing = isnull sub; msg = bad_locations missing
             in Inl (AssertionError (Locations msg)))
          else Inr (st, df))"

fun is_monotonic_items_at ::
  "('r, 'i, 'a::{ord, minus, zero}) store \<Rightarrow> 'r \<Rightarrow> (string \<times> bool option \<times> bool) list \<Rightarrow>
   ('r, 'i, 'a) returned" where
  "is_monotonic_items_at st df [] = Inr (st, df)"
| "is_monotonic_items_at st df ((col, increasing, strict) # items) =
     (case getitem (st df) col of
        None \<Rightarrow> Inl (KeyError col)
      | Some s \<Rightarrow>
          if \<not> column_good s increasing strict then Inl (AssertionError NoArgs)
          else is_monotonic_items_at st df items)"

definition is_monotonic_at ::
  "('r, 'i, 'a::{ord, minus, zero}) store \<Rightarrow> 'r \<Rightarrow> (string \<times> bool option \<times> bool) list option \<Rightarrow>
   bool option \<Rightarrow> bool \<Rightarrow> ('r, 'i, 'a) returned" where
  "is_monotonic_at st df items increasing strict =
     is_monotonic_items_at st df
       (case items of
          None \<Rightarrow> map (\<lambda>k. (k, increasing, strict)) (columns_of (st df))
        | Some its \<Rightarrow> its)"

definition is_shape_at ::
  "('r, 'i, 'a) store \<Rightarrow> 'r \<Rightarrow> nat \<times> nat \<Rightarrow> ('r, 'i, 'a) returned" where
  "is_shape_at st df shape =
     (if shape_of (st df) = shape then Inr (st, df)
      else Inl (AssertionError (Message
             (''Expected shape: '' @ string_of_shape shape @ [CHR 0x0A, CHR 0x09, CHR 0x09]
              @ ''Actual shape:   '' @ string_of_shape (shape_of (st df))))))"

definition unique_index_at ::
  "('r, 'i::linorder, 'a) store \<Rightarrow> 'r \<Rightarrow> ('r, 'i, 'a) returned" where
  "unique_index_at st df =
     (if is_unique (df_index (st df)) then Inr (st, df)
      else Inl (AssertionError (Duplicates (get_duplicates (df_index (st df))))))"

fun within_set_at ::
  "('r, 'i, 'a) store \<Rightarrow> 'r \<Rightarrow> (string \<times> 'a list) list \<Rightarrow> ('r, 'i, 'a) returned" where
  "within_set_at st df [] = Inr (st, df)"
| "within_set_at st df ((k, v) # items) =
     (case getitem (st df) k of
        None \<Rightarrow> Inl (KeyError k)
      | Some s \<Rightarrow>
          if \<not> list_all id (isin s v) then
            (let bad = map fst (filter (\<lambda>(row, m). \<not> m)
                                 (zip (zip (df_index (st df)) s) (isin s v)))
             in Inl (AssertionError (NotInSet bad)))
          else within_set_at st df items)"

fun within_range_at ::
  "('r, 'i, 'a::ord) store \<Rightarrow> 'r \<Rightarrow> (string \<times> 'a \<times> 'a) list \<Rightarrow> ('r, 'i, 'a) returned" where
  "within_range_at st df [] = Inr (st, df)"
| "within_range_at st df ((k, lower, upper) # items) =
     (case getitem (st df) k of
        None \<Rightarrow> Inl (KeyError k)
      | Some s \<Rightarrow>
          if list_ex (\<lambda>x. lower > x) s \<or> list_ex (\<lambda>x. upper < x) s then
            (let bad = zip (df_index (st df)) (map (\<lambda>x. lower > x \<or> upper < x) s)
             in Inl (AssertionError (OutsideRange bad)))
          else within_range_at st df items)"

definition within_n_std_at ::
  "('r, 'i, real) store \<Rightarrow> 'r \<Rightarrow> real \<Rightarrow> ('r, 'i, real) returned" where
  "within_n_std_at st df n =
     (if \<not> np_all (inliers (st df) n) then
        (let msg = bad_locations (invert (inliers (st df) n))
         in Inl (AssertionError (Locations msg)))
      else Inr (st, df))"

fun has_dtypes_items_at ::
  "(string \<Rightarrow> string \<Rightarrow> bool) \<Rightarrow> ('r, 'i, 'a) store \<Rightarrow> 'r \<Rightarrow> (string \<times> string) list \<Rightarrow>
   (string \<times> string) list \<Rightarrow> ('r, 'i, 'a) returned" where
  "has_dtypes_items_at dtype_eq st df dtypes [] = Inr (st, df)"
| "has_dtypes_items_at dtype_eq st df dtypes ((k, v) # items) =
     (case map_of dtypes k of
        None \<Rightarrow> Inl (KeyError k)
      | Some d \<Rightarrow>
          if \<not> dtype_eq d v then
            Inl (AssertionError (Message (k @ '' has the wrong dtype ('' @ v @ '')'')))
          else has_dtypes_items_at dtype_eq st df dtypes items)"

definition has_dtypes_at ::
  "(string \<Rightarrow> string \<Rightarrow> bool) \<Rightarrow> ('r, 'i, 'a) store \<Rightarrow> 'r \<Rightarrow> (string \<times> string) list \<Rightarrow>
   ('r, 'i, 'a) returned" where
  "has_dtypes_at dtype_eq st df items =
     has_dtypes_items_at dtype_eq st df (dtypes_of (st df)) items"

text \<open>
  What a check on a table gives, told of a reference: the error it raises, or the store
  and the reference as they were.
\<close>

definition by_value ::
  "('r, 'i, 'a) store \<Rightarrow> 'r \<Rightarrow> ('i, 'a) error + ('i, 'a) dataframe \<Rightarrow> ('r, 'i, 'a) returned" where
  "by_value st df result = (case result of Inl e \<Rightarrow> Inl e | Inr t \<Rightarrow> Inr (st, df))"

text \<open>
  For comparison, what \<open>df.copy()\<close> does to a store: the table is stored once more,
  at a reference that was not in use, and that reference is the result. None of the
  checks calls it.
\<close>

definition copy_at :: "('r, 'i, 'a) store \<Rightarrow> 'r \<Rightarrow> 'r \<Rightarrow> ('r, 'i, 'a) store \<times> 'r" where
  "copy_at st df fresh = (st(fresh := st df), fresh)"

section \<open>Reference notions and example tables\<close>

text \<open>
  \<open>adjacent P s\<close>: every value of \<open>s\<close> and its successor are related by \<open>P\<close>. A column
  has no missing value when none of its cells is NaN.

  What the specification means by a column that is monotonic in a direction, without
  strictness: it has no missing value and is non-decreasing for \<open>increasing\<close>,
  non-increasing for \<open>decreasing\<close>, one of the two when the direction is unspecified.
  A column is strictly ascending (descending) when it has no missing value and every
  value is less (greater) than its successor.
\<close>

fun adjacent :: "('a \<Rightarrow> 'a \<Rightarrow> bool) \<Rightarrow> 'a list \<Rightarrow> bool" where
  "adjacent P (x # y # xs) = (P x y \<and> adjacent P (y # xs))"
| "adjacent P _ = True"

definition no_missing :: "('a::ord) list \<Rightarrow> bool" where
  "no_missing s = list_all (\<lambda>x. \<not> isna x) s"




text \<open>
  A value is finite when it is not missing and its difference with itself is zero: a
  number that is neither positive nor negative. Every integer is finite; a float is
  finite when it is neither NaN nor an infinity. A column has a finite tie when two
  consecutive values of it are equal and finite.
\<close>

definition finite_value :: "('a::{ord, minus, zero}) \<Rightarrow> bool" where
  "finite_value x \<longleftrightarrow> \<not> isna x \<and> \<not> isna (x - x) \<and> \<not> 0 < x - x \<and> \<not> x - x < 0"



text \<open>Tables of one column, of floats or of integers, their rows numbered from 0.\<close>

definition float_column :: "string \<Rightarrow> 'a list \<Rightarrow> (nat, 'a) dataframe" where
  "float_column k s =
     \<lparr>df_index = [0..<length s],
      df_columns = [\<lparr>col_name = k, col_dtype = ''float64'', col_values = s\<rparr>]\<rparr>"

definition int_column :: "string \<Rightarrow> 'a list \<Rightarrow> (nat, 'a) dataframe" where
  "int_column k s =
     \<lparr>df_index = [0..<length s],
      df_columns = [\<lparr>col_name = k, col_dtype = ''int64'', col_values = s\<rparr>]\<rparr>"


text \<open>Two small tables for the examples: grades of three pupils, and three ages.\<close>

definition grades_table :: "(nat, string) dataframe" where
  "grades_table =
     \<lparr>df_index = [0, 1, 2],
      df_columns = [\<lparr>col_name = ''sex'', col_dtype = ''object'', col_values = [''M'', ''F'', ''M'']\<rparr>,
                    \<lparr>col_name = ''grade'', col_dtype = ''object'', col_values = [''A'', ''D'', ''C'']\<rparr>]\<rparr>"

definition ages_table :: "(nat, int) dataframe" where
  "ages_table =
     \<lparr>df_index = [0, 1, 2],
      df_columns = [\<lparr>col_name = ''age'', col_dtype = ''int64'', col_values = [18, 40, 65]\<rparr>]\<rparr>"

text \<open>
  Tables for the outlier check: one whose last cell lies exactly three standard
  deviations above the mean of its column (mean 1, deviation 3), one with mean and
  deviation 1, and one with a constant column beside it.
\<close>

definition boundary_table :: "(nat, real) dataframe" where
  "boundary_table =
     \<lparr>df_index = [0, 1, 2, 3, 4, 5, 6, 7, 8, 9, 10],
      df_columns = [\<lparr>col_name = ''x'', col_dtype = ''float64'',
                     col_values = [1, 0, 0, 0, 0, 0, 0, 0, 0, 0, 10]\<rparr>]\<rparr>"

definition spread_table :: "(nat, real) dataframe" where
  "spread_table =
     \<lparr>df_index = [0, 1, 2],
      df_columns = [\<lparr>col_name = ''x'', col_dtype = ''float64'', col_values = [0, 1, 2]\<rparr>]\<rparr>"

definition constant_table :: "(nat, real) dataframe" where
  "constant_table =
     \<lparr>df_index = [0, 1, 2],
      df_columns = [\<lparr>col_name = ''x'', col_dtype = ''float64'', col_values = [0, 1, 2]\<rparr>,
                    \<lparr>col_name = ''k'', col_dtype = ''float64'', col_values = [5, 5, 5]\<rparr>]\<rparr>"

text \<open>
  \<open>tenth\<close> is the float nearest to one tenth, which is what \<open>0.1\<close> denotes in Python,
  and \<open>tenths_table\<close> the table of one column with three cells of this value.
\<close>

definition tenth :: real where
  "tenth = 3602879701896397 / 36028797018963968"

definition tenths_table :: "(nat, real) dataframe" where
  "tenths_table =
     \<lparr>df_index = [0, 1, 2],
      df_columns = [\<lparr>col_name = ''x'', col_dtype = ''float64'',
                     col_values = [tenth, tenth, tenth]\<rparr>]\<rparr>"

text \<open>
  A table of optional cells for the missing-value check, and an equality of type tags
  that knows \<open>i8\<close> as another name of \<open>int64\<close>.
\<close>

definition optional_table :: "(nat, int option) dataframe" where
  "optional_table =
     \<lparr>df_index = [0, 1, 2],
      df_columns = [\<lparr>col_name = ''age'', col_dtype = ''float64'',
                     col_values = [Some 18, Some 40, Some 65]\<rparr>]\<rparr>"

definition alias_eq :: "string \<Rightarrow> string \<Rightarrow> bool" where
  "alias_eq d v \<longleftrightarrow> d = v \<or> (d = ''int64'' \<and> v = ''i8'')"

text \<open>
  The store that holds the table \<open>t\<close> at the reference 0, and an empty table at every
  other reference.
\<close>

definition store_of :: "('i, 'a) dataframe \<Rightarrow> (nat, 'i, 'a) store" where
  "store_of t = (\<lambda>r. if r = 0 then t else \<lparr>df_index = [], df_columns = []\<rparr>)"

section \<open>Facts about the primitives\<close>

subsection \<open>Column lookup\<close>




subsection \<open>Cells and monotonic columns\<close>

lemma isna_float64 [simp]: "isna (x :: float64) \<longleftrightarrow> x = NaN"
  by (cases x) (auto simp: isna_def less_eq_float64_def)

lemma isna_int64 [simp]: "\<not> isna (x :: int64)"
  by (simp add: isna_def less_eq_int64_def)






lemma finite_value_int64 [simp]: "finite_value (x :: int64)"
  by (simp add: finite_value_def less_int64_def minus_int64_def zero_int64_def)







lemma increasing_adjacent: "is_monotonic_increasing s \<Longrightarrow> adjacent (\<le>) s"
  by (induction s rule: is_monotonic_increasing.induct) auto

lemma decreasing_adjacent: "is_monotonic_decreasing s \<Longrightarrow> adjacent (\<ge>) s"
  by (induction s rule: is_monotonic_decreasing.induct) auto









lemma unordered_not_good:
  "\<not> adjacent (\<le>) s \<Longrightarrow> \<not> adjacent (\<ge>) s \<Longrightarrow> \<not> column_good s None strict"
  using increasing_adjacent [of s] decreasing_adjacent [of s]
  by (auto simp: column_good_def Let_def)











lemma int64_no_missing [simp]: "no_missing (s :: int64 list)"
  by (simp add: no_missing_def list_all_iff)





subsection \<open>The loop of \<open>is_monotonic\<close>\<close>






subsection \<open>Duplicates, membership and ranges\<close>

lemma distinct_count_list_1:
  "distinct xs \<longleftrightarrow> (\<forall>k\<in>set xs. count_list xs k = 1)"
  by (induction xs) (auto simp: count_list_0_iff)

lemma set_get_duplicates: "set (get_duplicates idx) = {k. 1 < count_list idx k}"
proof -
  have "k \<in> set idx" if "1 < count_list idx k" for k
    using that count_list_0_iff [of idx k] by auto
  then show ?thesis
    by (auto simp: get_duplicates_def)
qed

lemma distinct_get_duplicates: "distinct (get_duplicates idx)"
  by (simp add: get_duplicates_def)

lemma sorted_get_duplicates: "sorted (get_duplicates idx)"
  by (simp add: get_duplicates_def)

lemma zip_zip_map:
  "zip (zip xs ys) (map f ys) = map (\<lambda>(x, y). ((x, y), f y)) (zip xs ys)"
proof (induction xs arbitrary: ys)
  case Nil
  then show ?case by simp
next
  case (Cons x xs)
  then show ?case by (cases ys) auto
qed

lemma not_in_set_rows:
  "map fst (filter (\<lambda>(row, m). \<not> m) (zip (zip idx s) (isin s v)))
     = filter (\<lambda>(i, x). x \<notin> set v) (zip idx s)"
  by (simp add: isin_def zip_zip_map filter_map o_def case_prod_unfold)

lemma within_set_pass:
  "(\<forall>(k, v)\<in>set items. \<exists>s. getitem df k = Some s \<and> set s \<subseteq> set v) \<Longrightarrow>
   within_set df items = Inr df"
  by (induction items) (auto simp: isin_def list_all_iff)

lemma within_set_skip:
  "(\<forall>(k, v)\<in>set pre. \<exists>s. getitem df k = Some s \<and> set s \<subseteq> set v) \<Longrightarrow>
   within_set df (pre @ rest) = within_set df rest"
  by (induction pre) (auto simp: isin_def list_all_iff)

lemma within_set_Inr_subset:
  "within_set df items = Inr r \<Longrightarrow>
   (\<forall>(k, v)\<in>set items. \<exists>s. getitem df k = Some s \<and> set s \<subseteq> set v)"
  by (induction items) (auto simp: isin_def list_all_iff split: option.splits if_splits)







subsection \<open>The checks on references\<close>

lemma none_missing_at_value:
  "none_missing_at st df columns = by_value st df (none_missing (st df) columns)"
  unfolding none_missing_at_def none_missing_def by_value_def Let_def
  by (cases "getitems (st df) (case columns of None \<Rightarrow> columns_of (st df) | Some cs \<Rightarrow> cs)")
     simp_all

lemma is_monotonic_items_at_value:
  "is_monotonic_items_at st df items = by_value st df (is_monotonic_items (st df) items)"
  by (induction items) (auto simp: by_value_def split: option.splits)

lemma is_monotonic_at_value:
  "is_monotonic_at st df items increasing strict
     = by_value st df (is_monotonic (st df) items increasing strict)"
  by (simp add: is_monotonic_at_def is_monotonic_def is_monotonic_items_at_value)

lemma is_shape_at_value: "is_shape_at st df shape = by_value st df (is_shape (st df) shape)"
  by (simp add: is_shape_at_def is_shape_def by_value_def)

lemma unique_index_at_value: "unique_index_at st df = by_value st df (unique_index (st df))"
  by (simp add: unique_index_at_def unique_index_def by_value_def)

lemma within_set_at_value:
  "within_set_at st df items = by_value st df (within_set (st df) items)"
  by (induction items) (auto simp: by_value_def split: option.splits)

lemma within_range_at_value:
  "within_range_at st df items = by_value st df (within_range (st df) items)"
  by (induction items) (auto simp: by_value_def split: option.splits)

lemma within_n_std_at_value:
  "within_n_std_at st df n = by_value st df (within_n_std (st df) n)"
  by (simp add: within_n_std_at_def within_n_std_def by_value_def)

lemma has_dtypes_items_at_value:
  "has_dtypes_items_at dtype_eq st df dtypes items
     = by_value st df (has_dtypes_items dtype_eq (st df) dtypes items)"
  by (induction items) (auto simp: by_value_def split: option.splits)

lemma has_dtypes_at_value:
  "has_dtypes_at dtype_eq st df items = by_value st df (has_dtypes dtype_eq (st df) items)"
  by (simp add: has_dtypes_at_def has_dtypes_def has_dtypes_items_at_value)

lemma by_value_returned: "by_value st df result = Inr (st', r) \<Longrightarrow> r = df \<and> st' = st"
  by (auto simp: by_value_def split: sum.splits)

subsection \<open>Rounding\<close>

lemma rne_of_int [simp]: "rne (of_int z) = z"
  by (simp add: rne_def)

lemma rne_ge_floor: "\<lfloor>y\<rfloor> \<le> rne y"
  by (simp add: rne_def Let_def)

lemma fl_0 [simp]: "fl 0 = 0"
  by (simp add: fl_def)

lemma floor_log2_eq:
  assumes "2 powi e \<le> \<bar>x\<bar>" and "\<bar>x\<bar> < 2 powi (e + 1)"
  shows "\<lfloor>log 2 \<bar>x\<bar>\<rfloor> = e"
proof -
  have pos: "0 < \<bar>x\<bar>"
    using assms(1) zero_less_power_int [of "2 :: real" e] by linarith
  have "(2 :: real) powr real_of_int k = 2 powi k" for k
    by (simp add: powr_real_of_int')
  then have "2 powr real_of_int e \<le> \<bar>x\<bar> \<and> \<bar>x\<bar> < 2 powr (real_of_int e + 1)"
    using assms by (metis of_int_1 of_int_add)
  with pos show ?thesis
    by (simp add: floor_log_eq_powr_iff)
qed

lemma fl_eq:
  assumes "2 powi e \<le> \<bar>x\<bar>" and "\<bar>x\<bar> < 2 powi (e + 1)"
  shows "fl x = 2 powi (e - 52) * of_int (rne (x / 2 powi (e - 52)))"
proof -
  have "0 < (2 :: real) powi e"
    by simp
  then have "0 < \<bar>x\<bar>"
    using assms(1) by (rule less_le_trans)
  then have "x \<noteq> 0"
    by simp
  then show ?thesis
    by (simp add: fl_def Let_def floor_log2_eq [OF assms])
qed

lemma fl_dyadic:
  assumes "\<bar>k\<bar> < 2 ^ 53"
  shows "fl (of_int k / 2 ^ j) = of_int k / 2 ^ j"
proof (cases "k = 0")
  case True
  then show ?thesis by simp
next
  case False
  define a where "a = \<lfloor>log 2 \<bar>real_of_int k\<bar>\<rfloor>"
  have kpos: "0 < \<bar>real_of_int k\<bar>"
    using False by simp
  have pw: "(2 :: real) powr real_of_int i = 2 powi i" for i
    by (simp add: powr_real_of_int')
  from kpos have "2 powr real_of_int a \<le> \<bar>real_of_int k\<bar> \<and> \<bar>real_of_int k\<bar> < 2 powr real_of_int (a + 1)"
    using floor_log_eq_powr_iff [of "\<bar>real_of_int k\<bar>" 2 a] by (simp add: a_def)
  then have a: "2 powi a \<le> \<bar>real_of_int k\<bar>" "\<bar>real_of_int k\<bar> < 2 powi (a + 1)"
    by (simp_all only: pw)
  have "1 \<le> \<bar>real_of_int k\<bar>"
    using False by (metis kpos of_int_abs of_int_0_less_iff int_one_le_iff_zero_less of_int_1_le_iff)
  with a(2) have "(2 :: real) powi 0 < 2 powi (a + 1)"
    by simp
  have a0: "0 \<le> a"
  proof (rule ccontr)
    assume "\<not> 0 \<le> a"
    then have "a + 1 \<le> 0" by simp
    then have "(2 :: real) powi (a + 1) \<le> 2 powi 0"
      by (rule power_int_increasing) simp
    with \<open>(2 :: real) powi 0 < 2 powi (a + 1)\<close> show False by simp
  qed
  have "\<bar>real_of_int k\<bar> < 2 powi 53"
    using assms by (metis of_int_abs of_int_less_numeral_power_cancel_iff power_int_numeral of_int_numeral of_int_power)
  with a(1) have "(2 :: real) powi a < 2 powi 53"
    by linarith
  have a52: "a \<le> 52"
  proof (rule ccontr)
    assume "\<not> a \<le> 52"
    then have "53 \<le> a" by simp
    then have "(2 :: real) powi 53 \<le> 2 powi a"
      by (rule power_int_increasing) simp
    with \<open>(2 :: real) powi a < 2 powi 53\<close> show False by simp
  qed
  let ?x = "real_of_int k / 2 ^ j"
  let ?e = "a - int j"
  have abs: "\<bar>?x\<bar> = \<bar>real_of_int k\<bar> * 2 powi (- int j)"
    by (simp add: power_int_minus field_simps abs_mult)
  have e1: "2 powi ?e \<le> \<bar>?x\<bar>"
    unfolding abs using a(1) by (simp add: power_int_diff power_int_minus field_simps)
  have e2: "\<bar>?x\<bar> < 2 powi (?e + 1)"
  proof -
    have "2 powi (?e + 1) = (2 :: real) powi (a + 1) * 2 powi (- int j)"
      by (simp add: power_int_add power_int_diff power_int_minus field_simps)
    with a(2) show ?thesis
      unfolding abs by (simp add: power_int_minus)
  qed
  have scale: "?x / 2 powi (?e - 52) = of_int (k * 2 ^ nat (52 - a))"
  proof -
    have "(2 :: real) powi (?e - 52) = 2 powi (- int j) / 2 powi (52 - a)"
      by (simp add: power_int_diff power_int_minus field_simps power_int_add)
    moreover have "(2 :: real) powi (52 - a) = 2 ^ nat (52 - a)"
      using a52 by (metis power_int_of_nat int_nat_eq diff_ge_0_iff_ge)
    ultimately show ?thesis
      by (simp add: power_int_minus field_simps)
  qed
  have "fl ?x = 2 powi (?e - 52) * of_int (rne (?x / 2 powi (?e - 52)))"
    using e1 e2 by (rule fl_eq)
  also have "\<dots> = 2 powi (?e - 52) * (?x / 2 powi (?e - 52))"
    by (simp only: scale rne_of_int)
  also have "\<dots> = ?x"
    by simp
  finally show ?thesis .
qed

lemma fl_int: "\<bar>k\<bar> < 2 ^ 53 \<Longrightarrow> fl (of_int k) = of_int k"
  using fl_dyadic [of k 0] by simp

lemma floor_uminus: "\<lfloor>- y\<rfloor> = (if y = of_int \<lfloor>y\<rfloor> then - \<lfloor>y\<rfloor> else - \<lfloor>y\<rfloor> - 1)" for y :: real
proof (cases "y = of_int \<lfloor>y\<rfloor>")
  case True
  then have "- y = of_int (- \<lfloor>y\<rfloor>)" by simp
  then have "\<lfloor>- y\<rfloor> = - \<lfloor>y\<rfloor>" by (metis floor_of_int)
  with True show ?thesis by simp
next
  case False
  have "of_int \<lfloor>y\<rfloor> \<le> y" "y < of_int \<lfloor>y\<rfloor> + 1"
    by linarith+
  with False have "of_int \<lfloor>y\<rfloor> < y" by (metis order.not_eq_order_implies_strict)
  then have "\<lfloor>- y\<rfloor> = - \<lfloor>y\<rfloor> - 1"
    using \<open>y < of_int \<lfloor>y\<rfloor> + 1\<close> by (intro floor_unique) (simp, linarith, simp)
  with False show ?thesis by simp
qed

lemma rne_minus: "rne (- y) = - rne y"
proof (cases "y = of_int \<lfloor>y\<rfloor>")
  case True
  then obtain z where "y = of_int z" ..
  then have "- y = of_int (- z)" by simp
  then show ?thesis
    using \<open>y = of_int z\<close> by (metis rne_of_int)
next
  case False
  define f where "f = \<lfloor>y\<rfloor>"
  define r where "r = y - of_int f"
  have r: "0 < r" "r < 1"
    using False by (simp_all add: r_def f_def) linarith+
  have fm: "\<lfloor>- y\<rfloor> = - f - 1"
    using False by (simp add: floor_uminus f_def)
  have y: "y = of_int f + r"
    by (simp add: r_def)
  have par: "even (- f - 1) \<longleftrightarrow> odd f"
    by simp
  show ?thesis
    unfolding rne_def Let_def fm f_def [symmetric]
    using r par by (auto simp: y)
qed

lemma fl_minus: "fl (- x) = - fl x"
  by (simp add: fl_def Let_def rne_minus)

lemma fl_numeral: "fl (numeral n) = numeral n" if "numeral n < (2 :: int) ^ 53"
  using fl_int [of "numeral n"] that by simp

lemma fl_1 [simp]: "fl 1 = 1"
  using fl_int [of 1] by simp

lemma fl_neg_numeral: "fl (- numeral n) = - numeral n" if "numeral n < (2 :: int) ^ 53"
  using fl_numeral [OF that] by (simp add: fl_minus)

lemma fl_ge_power:
  assumes "2 powi a \<le> y"
  shows "2 powi a \<le> fl y"
proof -
  have ypos: "0 < y"
    using assms zero_less_power_int [of "2 :: real" a] by linarith
  define e where "e = \<lfloor>log 2 y\<rfloor>"
  have pw: "(2 :: real) powr real_of_int i = 2 powi i" for i
    by (simp add: powr_real_of_int')
  from ypos have "2 powr real_of_int e \<le> y \<and> y < 2 powr real_of_int (e + 1)"
    using floor_log_eq_powr_iff [of y 2 e] by (simp add: e_def)
  then have e: "2 powi e \<le> y" "y < 2 powi (e + 1)"
    by (simp_all only: pw)
  have ae: "a \<le> e"
  proof (rule ccontr)
    assume "\<not> a \<le> e"
    then have "e + 1 \<le> a" by simp
    then have "(2 :: real) powi (e + 1) \<le> 2 powi a"
      by (rule power_int_increasing) simp
    with assms e(2) show False by linarith
  qed
  have eq: "fl y = 2 powi (e - 52) * of_int (rne (y / 2 powi (e - 52)))"
    using e ypos by (intro fl_eq) simp_all
  have "(2 :: real) ^ 52 \<le> y / 2 powi (e - 52)"
  proof -
    have "(2 :: real) powi e = 2 ^ 52 * 2 powi (e - 52)"
      by (simp add: power_int_diff)
    with e(1) show ?thesis
      by (simp add: pos_le_divide_eq)
  qed
  then have "2 ^ 52 \<le> \<lfloor>y / 2 powi (e - 52)\<rfloor>"
    by (simp add: le_floor_iff)
  then have "2 ^ 52 \<le> rne (y / 2 powi (e - 52))"
    using rne_ge_floor [of "y / 2 powi (e - 52)"] by linarith
  then have "(2 :: real) ^ 52 \<le> of_int (rne (y / 2 powi (e - 52)))"
    by (metis of_int_le_iff of_int_numeral of_int_power)
  then have "2 powi (e - 52) * (2 :: real) ^ 52 \<le> fl y"
    unfolding eq by (intro mult_left_mono) simp_all
  moreover have "2 powi (e - 52) * (2 :: real) ^ 52 = 2 powi e"
    by (simp add: power_int_diff)
  moreover have "(2 :: real) powi a \<le> 2 powi e"
    using ae by (rule power_int_increasing) simp
  ultimately show ?thesis
    by linarith
qed

lemma fsum_zeros: "\<forall>x\<in>set xs. x = 0 \<Longrightarrow> fsum xs = 0"
proof -
  have "foldl (\<lambda>a x. fl (a + x)) 0 xs = 0" if "\<forall>x\<in>set xs. x = 0"
    using that by (induction xs) simp_all
  then show "\<forall>x\<in>set xs. x = 0 \<Longrightarrow> fsum xs = 0"
    by (simp add: fsum_def)
qed

lemma std_of_exact_mean:
  assumes "xs \<noteq> []" and "\<forall>x\<in>set xs. x = v" and "mean xs = Some v"
  shows "std xs = (if length xs = 1 then None else Some 0)"
proof -
  have "\<forall>y\<in>set (map (\<lambda>x. fl ((fl (v - x))\<^sup>2)) xs). y = 0"
    using assms(2) by simp
  then have "fsum (map (\<lambda>x. fl ((fl (v - x))\<^sup>2)) xs) = 0"
    by (rule fsum_zeros)
  moreover from assms(1) have "length xs \<le> 1 \<longleftrightarrow> length xs = 1"
    by (cases xs) auto
  ultimately show ?thesis
    using assms(3) by (simp add: std_def)
qed

lemma mean_single: "fl v = v \<Longrightarrow> mean [v] = Some v"
  by (simp add: mean_def fsum_def)

lemma fsum_integers:
  assumes "\<bar>k\<bar> * int (i + j) < 2 ^ 53"
  shows "foldl (\<lambda>a x. fl (a + x)) (of_int (int i * k)) (replicate j (of_int k))
           = of_int (int (i + j) * k)"
  using assms
proof (induction j arbitrary: i)
  case 0
  then show ?case by simp
next
  case (Suc j)
  have "\<bar>int (Suc i) * k\<bar> \<le> \<bar>k\<bar> * int (i + Suc j)"
    by (simp add: abs_mult mult.commute mult_left_mono)
  with Suc.prems have "\<bar>int (Suc i) * k\<bar> < 2 ^ 53"
    by linarith
  then have "fl (of_int (int (Suc i) * k)) = of_int (int (Suc i) * k)"
    by (rule fl_int)
  moreover have "real_of_int (int i * k) + real_of_int k = of_int (int (Suc i) * k)"
    by (simp add: algebra_simps)
  ultimately have step: "fl (real_of_int (int i * k) + real_of_int k) = of_int (int (Suc i) * k)"
    by simp
  from Suc.prems have "\<bar>k\<bar> * int (Suc i + j) < 2 ^ 53"
    by simp
  from Suc.IH [OF this] have "foldl (\<lambda>a x. fl (a + x)) (of_int (int (Suc i) * k)) (replicate j (of_int k))
      = of_int (int (i + Suc j) * k)"
    by simp
  then show ?case
    by (simp only: replicate_Suc foldl_Cons step)
qed

lemma mean_integers:
  assumes "xs \<noteq> []" and "\<forall>x\<in>set xs. x = of_int k" and "\<bar>k\<bar> * int (length xs) < 2 ^ 53"
  shows "mean xs = Some (of_int k)"
proof -
  define n where "n = length xs"
  have xs: "xs = replicate n (of_int k)"
    using assms(2) unfolding n_def by (induction xs) auto
  have n: "0 < n"
    using assms(1) by (simp add: n_def)
  have "fsum xs = of_int (int n * k)"
    using fsum_integers [of k 0 n] assms(3) by (simp add: fsum_def n_def [symmetric] xs [symmetric])
  moreover have "real_of_int (int n * k) / real n = of_int k"
    using n by simp
  moreover have "\<bar>k\<bar> < 2 ^ 53"
  proof -
    have "\<bar>k\<bar> * 1 \<le> \<bar>k\<bar> * int n"
      using n by (intro mult_left_mono) simp_all
    with assms(3) show ?thesis by (simp add: n_def)
  qed
  ultimately show ?thesis
    using assms(1) fl_int [of k] by (simp add: mean_def n_def)
qed

subsection \<open>The column of three tenths\<close>

lemma fl_tenth: "fl tenth = tenth"
  using fl_dyadic [of 3602879701896397 55] by (simp add: tenth_def)

lemma fl_2tenth: "fl (2 * tenth) = 2 * tenth"
  using fl_dyadic [of 3602879701896397 54] by (simp add: tenth_def)

lemma fl_3tenth: "fl (3 * tenth) = 5404319552844596 / 18014398509481984"
proof -
  have "fl (10808639105689191 / 36028797018963968)
          = 2 powi (- 2 - 52) * of_int (rne (10808639105689191 / 36028797018963968 / 2 powi (- 2 - 52)))"
    by (rule fl_eq) (simp_all add: power_int_minus)
  also have "\<dots> = 5404319552844596 / 18014398509481984"
    by (simp add: power_int_minus rne_def Let_def)
  finally show ?thesis
    by (simp add: tenth_def)
qed

lemma fsum_tenths: "fsum [tenth, tenth, tenth] = 5404319552844596 / 18014398509481984"
  by (simp add: fsum_def fl_tenth fl_2tenth fl_3tenth)

lemma mean_tenths: "mean [tenth, tenth, tenth] = Some (7205759403792795 / 72057594037927936)"
proof -
  have "fl (5404319552844596 / 18014398509481984 / 3)
          = 2 powi (- 4 - 52) * of_int (rne (5404319552844596 / 18014398509481984 / 3 / 2 powi (- 4 - 52)))"
    by (rule fl_eq) (simp_all add: power_int_minus)
  also have "\<dots> = 7205759403792795 / 72057594037927936"
    by (simp add: power_int_minus rne_def Let_def)
  finally show ?thesis
    by (simp add: mean_def fsum_tenths)
qed

lemma deviation_tenth: "7205759403792795 / 72057594037927936 - tenth = 1 / 72057594037927936"
  by (simp add: tenth_def)

lemma fl_p56: "fl (1 / 72057594037927936) = 1 / 72057594037927936"
  using fl_dyadic [of 1 56] by simp

lemma fl_p112: "fl (1 / 5192296858534827628530496329220096) = 1 / 5192296858534827628530496329220096"
  using fl_dyadic [of 1 112] by simp

lemma fl_p111: "fl (1 / 2596148429267413814265248164610048) = 1 / 2596148429267413814265248164610048"
  using fl_dyadic [of 1 111] by simp

lemma fl_3p112: "fl (3 / 5192296858534827628530496329220096) = 3 / 5192296858534827628530496329220096"
  using fl_dyadic [of 3 112] by simp

lemma fl_3p113: "fl (3 / 10384593717069655257060992658440192) = 3 / 10384593717069655257060992658440192"
  using fl_dyadic [of 3 113] by simp

lemma squares_tenths:
  "fsum [fl ((fl (7205759403792795 / 72057594037927936 - tenth))\<^sup>2),
         fl ((fl (7205759403792795 / 72057594037927936 - tenth))\<^sup>2),
         fl ((fl (7205759403792795 / 72057594037927936 - tenth))\<^sup>2)]
     = 3 / 5192296858534827628530496329220096"
  by (simp add: fsum_def deviation_tenth fl_p56 power_divide fl_p112 fl_p111 fl_3p112)

lemma std_tenths: "\<exists>s. std [tenth, tenth, tenth] = Some s \<and> 1 / 72057594037927936 \<le> s"
proof -
  let ?v = "sqrt (3 / 10384593717069655257060992658440192)"
  have lo: "1 / 72057594037927936 \<le> ?v"
  proof -
    have "sqrt ((1 / 72057594037927936)\<^sup>2) \<le> ?v"
      by (intro real_sqrt_le_mono) (simp add: power_divide)
    then show ?thesis by simp
  qed
  have hi: "?v < 1 / 36028797018963968"
  proof -
    have "?v < sqrt ((1 / 36028797018963968)\<^sup>2)"
      by (intro real_sqrt_less_mono) (simp add: power_divide)
    then show ?thesis by simp
  qed
  have "fl ?v = 2 powi (- 56 - 52) * of_int (rne (?v / 2 powi (- 56 - 52)))"
    using lo hi by (intro fl_eq) (simp_all add: power_int_minus)
  moreover have "2 ^ 52 \<le> rne (?v / 2 powi (- 56 - 52))"
  proof -
    have "(2 :: real) ^ 52 \<le> ?v / 2 powi (- 56 - 52)"
      using lo by (simp add: power_int_minus field_simps)
    then have "2 ^ 52 \<le> \<lfloor>?v / 2 powi (- 56 - 52)\<rfloor>"
      by (simp add: le_floor_iff)
    then show ?thesis
      using rne_ge_floor [of "?v / 2 powi (- 56 - 52)"] by linarith
  qed
  ultimately have "1 / 72057594037927936 \<le> fl ?v"
    by (simp add: power_int_minus field_simps)
  then show ?thesis
    by (simp add: std_def mean_tenths squares_tenths fl_3p113)
qed

subsection \<open>Outliers\<close>

lemma is_inlier_iff:
  "is_inlier n m s x \<longleftrightarrow>
     (\<exists>m' s'. m = Some m' \<and> s = Some s' \<and> \<bar>fl (x - m')\<bar> < fl (n * s'))"
  by (auto simp: is_inlier_def split: option.splits)

lemma np_all_inliers:
  "np_all (inliers df n) \<longleftrightarrow>
     (\<forall>c\<in>set (df_columns df). \<forall>x\<in>set (col_values c).
        is_inlier n (mean (col_values c)) (std (col_values c)) x)"
  by (auto simp: np_all_def inliers_def map_cells_def list_all_iff)

lemma within_n_std_cases:
  "within_n_std df n =
     (if np_all (inliers df n) then Inr df
      else Inl (AssertionError (Locations (bad_locations (invert (inliers df n))))))"
  by (simp add: within_n_std_def)

lemma boundary_not_inlier:
  "x = m + n * s \<or> x = m - n * s \<Longrightarrow> \<not> is_inlier n (Some m) (Some s) x"
  by (auto simp: is_inlier_def fl_minus)

lemma exact_mean:
  assumes "xs \<noteq> []" and "\<forall>x\<in>set xs. x = v"
    and "mean xs = Some v
         \<or> (length xs = 1 \<and> fl v = v)
         \<or> (\<exists>k. v = of_int k \<and> \<bar>k\<bar> * int (length xs) < 2 ^ 53)"
  shows "mean xs = Some v"
proof -
  have "mean xs = Some v" if "length xs = 1" and "fl v = v"
  proof -
    from that(1) assms(2) have "xs = [v]"
      by (cases xs) auto
    with that(2) show ?thesis
      by (simp add: mean_single)
  qed
  moreover have "mean xs = Some v" if "v = of_int k" and "\<bar>k\<bar> * int (length xs) < 2 ^ 53" for k
    using mean_integers [OF assms(1) _ that(2)] assms(2) that(1) by simp
  ultimately show ?thesis
    using assms(3) by blast
qed

lemma constant_not_inlier:
  assumes "xs \<noteq> []" and "\<forall>x\<in>set xs. x = v" and "mean xs = Some v"
  shows "\<not> is_inlier n (mean xs) (std xs) x"
  using std_of_exact_mean [OF assms] assms(3)
  by (auto simp: is_inlier_def)

lemma bad_locations_member:
  assumes "c \<in> set (df_columns m)" and "r < length (df_index m)"
    and "r < length (col_values c)" and "col_values c ! r"
  shows "(df_index m ! r, col_name c) \<in> set (bad_locations m)"
proof -
  let ?i = "df_index m ! r"
  let ?row = "\<lambda>(r, i). map (\<lambda>c. (i, col_name c))
                (filter (\<lambda>c. r < length (col_values c) \<and> col_values c ! r) (df_columns m))"
  from assms(2) have e: "(r, ?i) \<in> set (enumerate 0 (df_index m))"
    by (simp add: in_set_enumerate_eq)
  from assms(1,3,4) have "(?i, col_name c) \<in> set (?row (r, ?i))"
    by (simp add: image_iff) blast
  with e have "\<exists>p\<in>set (enumerate 0 (df_index m)). (?i, col_name c) \<in> set (?row p)"
    by (rule rev_bexI)
  then show ?thesis
    by (simp add: bad_locations_def)
qed

lemma sqrt_9: "sqrt 9 = 3"
  using real_sqrt_abs [of 3] by simp

lemma mean_boundary: "mean [1, 0, 0, 0, 0, 0, 0, 0, 0, 0, 10] = Some 1"
  by (simp add: mean_def fsum_def fl_numeral)

lemma std_boundary: "std [1, 0, 0, 0, 0, 0, 0, 0, 0, 0, 10] = Some 3"
  by (simp add: std_def mean_boundary fsum_def fl_numeral fl_neg_numeral sqrt_9)

lemma mean_spread: "mean [0, 1, 2] = Some 1"
  by (simp add: mean_def fsum_def fl_numeral)

lemma std_spread: "std [0, 1, 2] = Some 1"
  by (simp add: std_def mean_spread fsum_def fl_numeral fl_minus)

lemma mean_fives: "mean [5, 5, 5] = Some 5"
  by (simp add: mean_def fsum_def fl_numeral)

lemma std_fives: "std [5, 5, 5] = Some 0"
  by (simp add: std_def mean_fives fsum_def)

lemma std_tenths_bound:
  "\<exists>s. std [tenth, tenth, tenth] = Some s \<and> 1 / 72057594037927936 < fl (3 * s)"
proof -
  from std_tenths obtain s where s: "std [tenth, tenth, tenth] = Some s"
    "1 / 72057594037927936 \<le> s"
    by blast
  have "2 powi (- 55) = (1 :: real) / 36028797018963968"
    by (simp add: power_int_minus)
  with s(2) have "2 powi (- 55) \<le> 3 * s"
    by simp
  then have "2 powi (- 55) \<le> fl (3 * s)"
    by (rule fl_ge_power)
  then have "1 / 72057594037927936 < fl (3 * s)"
    by (simp add: power_int_minus)
  with s(1) show ?thesis
    by blast
qed

section \<open>The index is unique, or its duplicates are reported\<close>

text \<open>
  Claim C8. \<open>unique_index\<close> returns the table exactly when every row identifier of
  the index occurs once. Otherwise it raises an \<open>AssertionError\<close> whose arguments are
  the duplicated identifiers themselves, not their positions: the identifiers that
  occur more than once, each listed once, in ascending order. The index
  \<open>[1, 2, 2, 3]\<close> fails with the duplicates \<open>{2}\<close>, and \<open>[1, 2, 3]\<close> passes.
\<close>

theorem unique_index_duplicates:
  fixes df :: "('i::linorder, 'a) dataframe"
  shows "(unique_index df = Inr df \<longleftrightarrow>
            (\<forall>k\<in>set (df_index df). count_list (df_index df) k = 1))
    \<and> (unique_index df \<noteq> Inr df \<longrightarrow>
          unique_index df = Inl (AssertionError (Duplicates (get_duplicates (df_index df))))
          \<and> set (get_duplicates (df_index df)) = {k. 1 < count_list (df_index df) k}
          \<and> distinct (get_duplicates (df_index df))
          \<and> sorted (get_duplicates (df_index df)))"
  using distinct_count_list_1 [of "df_index df"]
  by (simp add: unique_index_def is_unique_def set_get_duplicates distinct_get_duplicates
      sorted_get_duplicates)

theorem unique_index_duplicates_witness:
  "unique_index \<lparr>df_index = [1, 2, 2, 3 :: int],
                  df_columns = [\<lparr>col_name = ''a'', col_dtype = ''int64'',
                                 col_values = [5, 6, 7, 8 :: int]\<rparr>]\<rparr>
     = Inl (AssertionError (Duplicates [2]))
   \<and> set (get_duplicates [1, 2, 2, 3 :: int]) = {2}
   \<and> unique_index \<lparr>df_index = [1, 2, 3 :: int],
                  df_columns = [\<lparr>col_name = ''a'', col_dtype = ''int64'',
                                 col_values = [5, 6, 7 :: int]\<rparr>]\<rparr>
     = Inr \<lparr>df_index = [1, 2, 3 :: int],
            df_columns = [\<lparr>col_name = ''a'', col_dtype = ''int64'',
                           col_values = [5, 6, 7 :: int]\<rparr>]\<rparr>"
  using unique_index_duplicates [of "\<lparr>df_index = [1, 2, 2, 3 :: int],
                  df_columns = [\<lparr>col_name = ''a'', col_dtype = ''int64'',
                                 col_values = [5, 6, 7, 8 :: int]\<rparr>]\<rparr>"]
    unique_index_duplicates [of "\<lparr>df_index = [1, 2, 3 :: int],
                  df_columns = [\<lparr>col_name = ''a'', col_dtype = ''int64'',
                                 col_values = [5, 6, 7 :: int]\<rparr>]\<rparr>"]
  by (simp add: get_duplicates_def)

section \<open>Monotonic columns\<close>










section \<open>Membership and range of the cells\<close>

text \<open>
  Claim C7. \<open>within_set\<close> returns the table exactly when every column named in
  \<open>items\<close> holds only allowed values. Otherwise it raises at the first entry of
  \<open>items\<close>, in iteration order, whose column holds a value that is not allowed: the
  arguments are the values that are not allowed, each with its row identifier. The
  entries after it play no role, whatever they are.
\<close>

theorem within_set_first_offender:
  "((\<forall>(k, v)\<in>set items. \<exists>s. getitem df k = Some s \<and> set s \<subseteq> set v) \<longleftrightarrow>
      within_set df items = Inr df)
   \<and> ((\<forall>(k', v')\<in>set pre. \<exists>s'. getitem df k' = Some s' \<and> set s' \<subseteq> set v')
        \<and> getitem df k = Some s \<and> \<not> set s \<subseteq> set v \<longrightarrow>
       within_set df (pre @ (k, v) # post)
         = Inl (AssertionError (NotInSet (filter (\<lambda>(i, x). x \<notin> set v) (zip (df_index df) s)))))"
proof -
  have "within_set df ((k, v) # post)
         = Inl (AssertionError (NotInSet (filter (\<lambda>(i, x). x \<notin> set v) (zip (df_index df) s))))"
    if "getitem df k = Some s" and "\<not> set s \<subseteq> set v"
  proof -
    from that(2) have "\<not> list_all id (isin s v)"
      by (auto simp: isin_def list_all_iff)
    with that(1) show ?thesis
      by (simp add: not_in_set_rows)
  qed
  then show ?thesis
    using within_set_pass [of items df] within_set_Inr_subset [of df items df]
      within_set_skip [of pre df "(k, v) # post"]
    by auto
qed

theorem within_set_first_offender_witness:
  "within_set grades_table [(''sex'', [''M'', ''F''])] = Inr grades_table
   \<and> within_set grades_table
        [(''sex'', [''M'', ''F'']), (''grade'', [''A'', ''B'', ''C'']), (''absent'', [])]
      = Inl (AssertionError (NotInSet [(1, ''D'')]))"
  using within_set_first_offender [where df = grades_table and items = "[(''sex'', [''M'', ''F''])]"
      and pre = "[(''sex'', [''M'', ''F''])]" and k = "''grade''" and s = "[''A'', ''D'', ''C'']"
      and v = "[''A'', ''B'', ''C'']" and post = "[(''absent'', [])]"]
  by (simp add: grades_table_def getitem_def)






section \<open>Outliers\<close>

text \<open>
  Claim C1, as the code has it. A cell is an inlier exactly when the mean and the
  standard deviation of its column exist and the distance of the cell from the mean is
  strictly less than \<open>n\<close> deviations, the difference and the product computed in
  floats. \<open>within_n_std\<close> returns the table exactly when every cell is an inlier, and
  otherwise raises with the locations of the outlier mask. The comparison is strict, so
  a cell exactly at the mean plus or minus \<open>n\<close> deviations is an outlier and makes the
  check raise; it is not an inlier, as the claim has it.
\<close>

theorem within_n_std_strict_bound:
  "(within_n_std df n = Inr df \<longleftrightarrow>
      (\<forall>c\<in>set (df_columns df). \<forall>x\<in>set (col_values c).
         \<exists>m s. mean (col_values c) = Some m \<and> std (col_values c) = Some s
               \<and> \<bar>fl (x - m)\<bar> < fl (n * s)))
   \<and> (within_n_std df n \<noteq> Inr df \<longrightarrow>
        within_n_std df n
          = Inl (AssertionError (Locations (bad_locations (invert (inliers df n))))))
   \<and> (c \<in> set (df_columns df) \<and> x \<in> set (col_values c)
        \<and> mean (col_values c) = Some m \<and> std (col_values c) = Some s
        \<and> (x = m + n * s \<or> x = m - n * s) \<longrightarrow>
        within_n_std df n
          = Inl (AssertionError (Locations (bad_locations (invert (inliers df n))))))"
proof -
  have iff: "within_n_std df n = Inr df \<longleftrightarrow>
      (\<forall>c\<in>set (df_columns df). \<forall>x\<in>set (col_values c).
         \<exists>m s. mean (col_values c) = Some m \<and> std (col_values c) = Some s
               \<and> \<bar>fl (x - m)\<bar> < fl (n * s))"
    by (simp add: within_n_std_cases np_all_inliers is_inlier_iff)
  have raise: "within_n_std df n \<noteq> Inr df \<longrightarrow>
        within_n_std df n
          = Inl (AssertionError (Locations (bad_locations (invert (inliers df n)))))"
    by (simp add: within_n_std_cases)
  have edge: "within_n_std df n
          = Inl (AssertionError (Locations (bad_locations (invert (inliers df n)))))"
    if "c \<in> set (df_columns df)" and "x \<in> set (col_values c)"
      and "mean (col_values c) = Some m" and "std (col_values c) = Some s"
      and "x = m + n * s \<or> x = m - n * s"
  proof -
    from that(3,4,5) have "\<not> is_inlier n (mean (col_values c)) (std (col_values c)) x"
      by (simp add: boundary_not_inlier)
    with that(1,2) have "\<not> np_all (inliers df n)"
      unfolding np_all_inliers by blast
    then show ?thesis by (simp add: within_n_std_cases)
  qed
  from iff raise edge show ?thesis by blast
qed

theorem within_n_std_strict_bound_witness:
  "within_n_std spread_table 2 = Inr spread_table
   \<and> within_n_std spread_table 1 = Inl (AssertionError (Locations [(0, ''x''), (2, ''x'')]))"
proof -
  let ?c = "\<lparr>col_name = ''x'', col_dtype = ''float64'', col_values = [0, 1, 2 :: real]\<rparr>"
  have inside: "\<forall>c\<in>set (df_columns spread_table). \<forall>x\<in>set (col_values c).
         \<exists>m s. mean (col_values c) = Some m \<and> std (col_values c) = Some s
               \<and> \<bar>fl (x - m)\<bar> < fl (2 * s)"
    by (simp add: spread_table_def mean_spread std_spread fl_minus fl_numeral)
  have p: "?c \<in> set (df_columns spread_table)" "0 \<in> set (col_values ?c)"
    "mean (col_values ?c) = Some 1" "std (col_values ?c) = Some 1"
    "(0 :: real) = 1 + 1 * 1 \<or> (0 :: real) = 1 - 1 * 1"
    by (simp_all add: spread_table_def mean_spread std_spread)
  have loc: "bad_locations (invert (inliers spread_table 1)) = [(0, ''x''), (2, ''x'')]"
    by (simp add: spread_table_def mean_spread std_spread inliers_def invert_def map_cells_def
      is_inlier_def bad_locations_def enumerate_eq_zip fl_minus fl_numeral)
  from within_n_std_strict_bound [where df = spread_table and n = 2] inside
  have a: "within_n_std spread_table 2 = Inr spread_table"
    by blast
  from within_n_std_strict_bound [where df = spread_table and n = 1 and c = ?c
      and x = 0 and m = 1 and s = 1] p
  have "within_n_std spread_table 1
          = Inl (AssertionError (Locations (bad_locations (invert (inliers spread_table 1)))))"
    by blast
  with a loc show ?thesis by simp
qed

text \<open>
  The table whose last cell is \<open>10 = 1 + 3 * 3\<close>, three deviations above the mean of
  its column: with the default \<open>n = 3\<close> the check raises, and that cell is the only
  one reported.
\<close>

theorem within_n_std_boundary_counterexample:
  "mean [1, 0, 0, 0, 0, 0, 0, 0, 0, 0, 10] = Some 1
   \<and> std [1, 0, 0, 0, 0, 0, 0, 0, 0, 0, 10] = Some 3
   \<and> (10 :: real) = 1 + 3 * 3
   \<and> \<not> is_inlier 3 (Some 1) (Some 3) 10
   \<and> within_n_std boundary_table 3 = Inl (AssertionError (Locations [(10, ''x'')]))"
  by (simp add: within_n_std_def boundary_table_def inliers_def mean_boundary std_boundary
      is_inlier_def map_cells_def np_all_def bad_locations_def invert_def enumerate_eq_zip
      fl_minus fl_numeral)

text \<open>
  Claim C9, as the code has it. If some column of the table has at least one cell, all
  its cells are equal, and the mean computed for the column is that value, then
  \<open>within_n_std\<close> raises, for every \<open>n\<close> (positive or not): the standard deviation of
  the column is 0, or undefined when the table has a single row, so no cell of the
  column is an inlier. In a well-formed table every row of that column is among the
  reported locations. The computed mean is the value of the cells when the column has
  a single row, and when the value is an integer whose product with the number of rows
  is less than \<open>2\<^sup>5\<^sup>3\<close>.
\<close>

theorem within_n_std_constant_column:
  assumes "c \<in> set (df_columns df)" and "col_values c \<noteq> []"
    and "\<forall>x\<in>set (col_values c). x = v"
    and "mean (col_values c) = Some v
         \<or> (length (col_values c) = 1 \<and> fl v = v)
         \<or> (\<exists>k. v = of_int k \<and> \<bar>k\<bar> * int (length (col_values c)) < 2 ^ 53)"
  shows "within_n_std df n
           = Inl (AssertionError (Locations (bad_locations (invert (inliers df n)))))
       \<and> mean (col_values c) = Some v
       \<and> std (col_values c) = (if length (col_values c) = 1 then None else Some 0)
       \<and> (\<forall>x\<in>set (col_values c).
             \<not> is_inlier n (mean (col_values c)) (std (col_values c)) x)
       \<and> (well_formed df \<longrightarrow>
             (\<forall>i\<in>set (df_index df).
                (i, col_name c) \<in> set (bad_locations (invert (inliers df n)))))"
proof -
  have m: "mean (col_values c) = Some v"
    using assms(2,3,4) by (rule exact_mean)
  have out: "\<forall>x\<in>set (col_values c).
             \<not> is_inlier n (mean (col_values c)) (std (col_values c)) x"
    using constant_not_inlier [OF assms(2,3) m] by blast
  from assms(2) obtain x where "x \<in> set (col_values c)"
    by (cases "col_values c") auto
  with out assms(1) have "\<not> np_all (inliers df n)"
    unfolding np_all_inliers by blast
  then have raise: "within_n_std df n
           = Inl (AssertionError (Locations (bad_locations (invert (inliers df n)))))"
    by (simp add: within_n_std_cases)
  have reported: "(i, col_name c) \<in> set (bad_locations (invert (inliers df n)))"
    if wf: "well_formed df" and i: "i \<in> set (df_index df)" for i
  proof -
    let ?c' = "map_cells Not ''bool''
                 (map_cells (is_inlier n (mean (col_values c)) (std (col_values c))) ''bool'' c)"
    from i obtain r where r: "r < length (df_index df)" "df_index df ! r = i"
      by (auto simp: in_set_conv_nth)
    from wf assms(1) have len: "length (col_values c) = length (df_index df)"
      by (auto simp: well_formed_def list_all_iff)
    have mem: "?c' \<in> set (df_columns (invert (inliers df n)))"
      using assms(1) by (auto simp: invert_def inliers_def)
    have cell: "col_values ?c' ! r"
      using r(1) len out by (simp add: map_cells_def)
    have "(df_index (invert (inliers df n)) ! r, col_name ?c')
            \<in> set (bad_locations (invert (inliers df n)))"
      using mem r(1) len cell
      by (intro bad_locations_member) (simp_all add: invert_def inliers_def map_cells_def)
    then show ?thesis
      using r(2) by (simp add: invert_def inliers_def map_cells_def)
  qed
  from raise m out reported std_of_exact_mean [OF assms(2,3) m] show ?thesis
    by blast
qed

theorem within_n_std_constant_column_witness:
  "within_n_std constant_table 3
     = Inl (AssertionError (Locations [(0, ''k''), (1, ''k''), (2, ''k'')]))
   \<and> std [5, 5, 5] = Some 0
   \<and> within_n_std (float_column ''k'' [5]) 3 = Inl (AssertionError (Locations [(0, ''k'')]))
   \<and> std [5] = None"
proof -
  let ?k = "\<lparr>col_name = ''k'', col_dtype = ''float64'', col_values = [5, 5, 5 :: real]\<rparr>"
  let ?one = "\<lparr>col_name = ''k'', col_dtype = ''float64'', col_values = [5 :: real]\<rparr>"
  have five: "\<exists>k. (5 :: real) = of_int k \<and> \<bar>k\<bar> * int (length (col_values ?k)) < 2 ^ 53"
    by (rule exI [of _ 5]) simp
  have p: "?k \<in> set (df_columns constant_table)" "col_values ?k \<noteq> []"
    "\<forall>x\<in>set (col_values ?k). x = 5"
    "mean (col_values ?k) = Some 5
     \<or> (length (col_values ?k) = 1 \<and> fl 5 = 5)
     \<or> (\<exists>k. (5 :: real) = of_int k \<and> \<bar>k\<bar> * int (length (col_values ?k)) < 2 ^ 53)"
    using five by (simp_all add: constant_table_def)
  have q: "?one \<in> set (df_columns (float_column ''k'' [5]))" "col_values ?one \<noteq> []"
    "\<forall>x\<in>set (col_values ?one). x = 5"
    "mean (col_values ?one) = Some 5
     \<or> (length (col_values ?one) = 1 \<and> fl 5 = 5)
     \<or> (\<exists>k. (5 :: real) = of_int k \<and> \<bar>k\<bar> * int (length (col_values ?one)) < 2 ^ 53)"
    by (simp_all add: float_column_def fl_numeral)
  have loc: "bad_locations (invert (inliers constant_table 3)) = [(0, ''k''), (1, ''k''), (2, ''k'')]"
    by (simp add: constant_table_def mean_spread std_spread mean_fives std_fives
      inliers_def invert_def map_cells_def is_inlier_def bad_locations_def enumerate_eq_zip
      fl_minus fl_numeral)
  have loc1: "bad_locations (invert (inliers (float_column ''k'' [5]) 3)) = [(0, ''k'')]"
    by (simp add: float_column_def inliers_def invert_def map_cells_def is_inlier_def
      bad_locations_def enumerate_eq_zip mean_def std_def)
  from within_n_std_constant_column [OF p, of 3]
  have a: "within_n_std constant_table 3
     = Inl (AssertionError (Locations (bad_locations (invert (inliers constant_table 3)))))"
    and b: "std (col_values ?k) = (if length (col_values ?k) = 1 then None else Some 0)"
    by blast+
  from within_n_std_constant_column [OF q, of 3]
  have c: "within_n_std (float_column ''k'' [5]) 3
     = Inl (AssertionError (Locations (bad_locations (invert (inliers (float_column ''k'' [5]) 3)))))"
    and d: "std (col_values ?one) = (if length (col_values ?one) = 1 then None else Some 0)"
    by blast+
  from a b c d loc loc1 show ?thesis by simp
qed

text \<open>
  The column of three cells \<open>0.1\<close> is constant, but the mean computed for it is the
  next float above \<open>0.1\<close>: the sum of the three cells is rounded, and so is its third.
  The deviation computed from this mean is not zero, every cell is an inlier, and the
  check with the default \<open>n = 3\<close> returns the table.
\<close>

theorem within_n_std_tenths_counterexample:
  "mean [tenth, tenth, tenth] = Some (7205759403792795 / 72057594037927936)
   \<and> tenth < 7205759403792795 / 72057594037927936
   \<and> std [tenth, tenth, tenth] \<noteq> None
   \<and> std [tenth, tenth, tenth] \<noteq> Some 0
   \<and> within_n_std tenths_table 3 = Inr tenths_table"
proof -
  from std_tenths_bound obtain s where s: "std [tenth, tenth, tenth] = Some s"
    "1 / 72057594037927936 < fl (3 * s)"
    by blast
  have "fl (3 * 0) = 0"
    by simp
  with s(2) have nz: "s \<noteq> 0"
    by auto
  have dev: "fl (tenth - 7205759403792795 / 72057594037927936) = - (1 / 72057594037927936)"
  proof -
    have "tenth - 7205759403792795 / 72057594037927936 = - (1 / 72057594037927936)"
      by (simp add: tenth_def)
    then show ?thesis
      by (simp only: fl_minus fl_p56)
  qed
  have "is_inlier 3 (mean [tenth, tenth, tenth]) (std [tenth, tenth, tenth]) tenth"
    using s(2) by (simp add: is_inlier_def mean_tenths s(1) dev)
  then have "np_all (inliers tenths_table 3)"
    by (simp add: np_all_inliers tenths_table_def)
  then have "within_n_std tenths_table 3 = Inr tenths_table"
    by (simp add: within_n_std_cases)
  moreover have "tenth < 7205759403792795 / 72057594037927936"
    by (simp add: tenth_def)
  ultimately show ?thesis
    using s(1) nz by (simp add: mean_tenths)
qed

section \<open>Every check returns the table it was given\<close>

text \<open>
  Claim C2. Whenever one of the eight checks returns, the reference it returns is the
  reference it was given, not that of a copy, and the store is as it was: no table was
  changed. So the result of one check can be passed to the next.
\<close>

theorem checks_return_their_table:
  "(none_missing_at sa dfa columns = Inr (sa', ra) \<longrightarrow> ra = dfa \<and> sa' = sa)
   \<and> (is_monotonic_at sb dfb itemsb increasing strict = Inr (sb', rb) \<longrightarrow>
        rb = dfb \<and> sb' = sb)
   \<and> (is_shape_at sc dfc shape = Inr (sc', rc) \<longrightarrow> rc = dfc \<and> sc' = sc)
   \<and> (unique_index_at sd dfd = Inr (sd', rd) \<longrightarrow> rd = dfd \<and> sd' = sd)
   \<and> (within_set_at se dfe itemse = Inr (se', re) \<longrightarrow> re = dfe \<and> se' = se)
   \<and> (within_range_at sf dff itemsf = Inr (sf', rf) \<longrightarrow> rf = dff \<and> sf' = sf)
   \<and> (within_n_std_at sg dfg n = Inr (sg', rg) \<longrightarrow> rg = dfg \<and> sg' = sg)
   \<and> (has_dtypes_at dtype_eq sh dfh itemsh = Inr (sh', rh) \<longrightarrow>
        rh = dfh \<and> sh' = sh)"
  unfolding none_missing_at_value is_monotonic_at_value is_shape_at_value unique_index_at_value
    within_set_at_value within_range_at_value within_n_std_at_value has_dtypes_at_value
  by (auto dest: by_value_returned)

theorem checks_return_their_table_witness:
  "none_missing_at (store_of optional_table) 0 None = Inr (store_of optional_table, 0)
   \<and> is_monotonic_at (store_of (int_column ''a'' [int64_of 1, int64_of 2])) 0 None (Some True) True
       = Inr (store_of (int_column ''a'' [int64_of 1, int64_of 2]), 0)
   \<and> is_shape_at (store_of ages_table) 0 (3, 1) = Inr (store_of ages_table, 0)
   \<and> unique_index_at (store_of ages_table) 0 = Inr (store_of ages_table, 0)
   \<and> within_set_at (store_of grades_table) 0 [(''sex'', [''M'', ''F''])]
       = Inr (store_of grades_table, 0)
   \<and> within_range_at (store_of ages_table) 0 [(''age'', 18, 65)] = Inr (store_of ages_table, 0)
   \<and> within_n_std_at (store_of spread_table) 0 2 = Inr (store_of spread_table, 0)
   \<and> has_dtypes_at alias_eq (store_of ages_table) 0 [(''age'', ''i8'')]
       = Inr (store_of ages_table, 0)"
proof -
  have a: "none_missing_at (store_of optional_table) 0 None = Inr (store_of optional_table, 0)"
    by (simp add: none_missing_at_value by_value_def store_of_def none_missing_def
        optional_table_def columns_of_def getitems_def isnull_def any_any_def map_cells_def)
  have b: "is_monotonic_at (store_of (int_column ''a'' [int64_of 1, int64_of 2])) 0 None
               (Some True) True
             = Inr (store_of (int_column ''a'' [int64_of 1, int64_of 2]), 0)"
    by (simp add: is_monotonic_at_value by_value_def store_of_def is_monotonic_def
        int_column_def columns_of_def getitem_def column_good_def diff_dropna_def
        int64_of_def less_eq_int64_def less_int64_def minus_int64_def zero_int64_def
        sint_sbintrunc')
  have c: "is_shape_at (store_of ages_table) 0 (3, 1) = Inr (store_of ages_table, 0)"
    by (simp add: is_shape_at_value by_value_def store_of_def is_shape_def shape_of_def
        ages_table_def)
  have d: "unique_index_at (store_of ages_table) 0 = Inr (store_of ages_table, 0)"
    by (simp add: unique_index_at_value by_value_def store_of_def unique_index_def
        is_unique_def ages_table_def)
  have e: "within_set_at (store_of grades_table) 0 [(''sex'', [''M'', ''F''])]
             = Inr (store_of grades_table, 0)"
    by (simp add: within_set_at_value by_value_def store_of_def grades_table_def getitem_def
        isin_def)
  have f: "within_range_at (store_of ages_table) 0 [(''age'', 18, 65)]
             = Inr (store_of ages_table, 0)"
    by (simp add: within_range_at_value by_value_def store_of_def ages_table_def getitem_def)
  have g: "within_n_std_at (store_of spread_table) 0 2 = Inr (store_of spread_table, 0)"
    by (simp add: within_n_std_at_value by_value_def store_of_def within_n_std_def
        spread_table_def inliers_def mean_spread std_spread is_inlier_def map_cells_def
        np_all_def fl_minus fl_numeral)
  have h: "has_dtypes_at alias_eq (store_of ages_table) 0 [(''age'', ''i8'')]
             = Inr (store_of ages_table, 0)"
    by (simp add: has_dtypes_at_value by_value_def store_of_def has_dtypes_def dtypes_of_def
        ages_table_def alias_eq_def)
  from checks_return_their_table [where sa = "store_of optional_table" and dfa = 0
      and columns = None and sa' = "store_of optional_table" and ra = 0
      and sb = "store_of (int_column ''a'' [int64_of 1, int64_of 2])" and dfb = 0
      and itemsb = None and increasing = "Some True" and strict = True
      and sb' = "store_of (int_column ''a'' [int64_of 1, int64_of 2])" and rb = 0
      and sc = "store_of ages_table" and dfc = 0 and shape = "(3, 1)"
      and sc' = "store_of ages_table" and rc = 0
      and sd = "store_of ages_table" and dfd = 0 and sd' = "store_of ages_table" and rd = 0
      and se = "store_of grades_table" and dfe = 0 and itemse = "[(''sex'', [''M'', ''F''])]"
      and se' = "store_of grades_table" and re = 0
      and sf = "store_of ages_table" and dff = 0 and itemsf = "[(''age'', 18, 65)]"
      and sf' = "store_of ages_table" and rf = 0
      and sg = "store_of spread_table" and dfg = 0 and n = 2
      and sg' = "store_of spread_table" and rg = 0
      and dtype_eq = alias_eq and sh = "store_of ages_table" and dfh = 0
      and itemsh = "[(''age'', ''i8'')]" and sh' = "store_of ages_table" and rh = 0]
    a b c d e f g h
  show ?thesis by simp
qed

text \<open>
  The store tells a table from its copy: a copy is an equal table at another reference,
  so a check that returned a copy of its table would not return the reference it was
  given.
\<close>

lemma copy_is_another_reference:
  "fresh \<noteq> df \<Longrightarrow>
   snd (copy_at st df fresh) \<noteq> df
   \<and> fst (copy_at st df fresh) (snd (copy_at st df fresh)) = st df
   \<and> fst (copy_at st df fresh) df = st df"
  by (simp add: copy_at_def)

end
